theory Spec2Isabelle
  imports Main
begin

section \<open>The values the script handles\<close>

text \<open>
  \<^verbatim>\<open>scripts/op_to_yaml.py\<close> is a top-level script: it reads \<^verbatim>\<open>sys.argv\<close>, runs the
  \<^verbatim>\<open>op\<close> command line tool, decodes and parses what it printed, and prints a Kubernetes
  Secret manifest. The model follows the script line by line.

  Text (\<^verbatim>\<open>str\<close>) is a list of characters, one \<^typ>\<open>char\<close> per character, so the
  characters of the model are the code points below 256. A byte string (\<^verbatim>\<open>bytes\<close>) is a
  list of bytes, one \<^typ>\<open>char\<close> per byte.
\<close>

type_synonym str = "char list"
type_synonym bytes = "char list"

text \<open>
  What \<^verbatim>\<open>json.loads\<close> returns: \<^verbatim>\<open>None\<close>, a \<^verbatim>\<open>bool\<close>, an \<^verbatim>\<open>int\<close>, a \<^verbatim>\<open>str\<close>, a
  \<^verbatim>\<open>list\<close> or a \<^verbatim>\<open>dict\<close> with \<^verbatim>\<open>str\<close> keys. A \<^verbatim>\<open>dict\<close> is the list of its items in
  insertion order; \<^verbatim>\<open>json.loads\<close> never builds one with a repeated key. JSON numbers with
  a fraction or an exponent, which become \<^verbatim>\<open>float\<close>, are not represented.
\<close>

datatype pyobj =
    PyNone
  | PyBool bool
  | PyInt int
  | PyStr str
  | PyList "pyobj list"
  | PyDict "(str \<times> pyobj) list"

text \<open>The exceptions the script can raise and does not catch.\<close>

datatype exn = IndexError | UnicodeDecodeError | TypeError | KeyError | AttributeError

text \<open>
  How a run ends: it runs off the end of the script, \<^verbatim>\<open>sys.exit\<close> is called, or an
  exception reaches the top level (the interpreter prints a traceback and the process
  exits with status 1).
\<close>

datatype outcome = Finished | SystemExit nat | Uncaught exn

fun exit_status :: "outcome \<Rightarrow> nat" where
  "exit_status Finished = 0"
| "exit_status (SystemExit n) = n"
| "exit_status (Uncaught x) = 1"

text \<open>
  What a run leaves behind: the arguments of the \<^verbatim>\<open>print\<close> calls on \<^verbatim>\<open>sys.stdout\<close>, in
  order, those on \<^verbatim>\<open>sys.stderr\<close> (the message of \<^verbatim>\<open>sys.exit(message)\<close> included), and how
  it ended.
\<close>

record run =
  out :: "str list"
  err :: "str list"
  final :: outcome

text \<open>\<^verbatim>\<open>subprocess.CompletedProcess\<close>, with both streams captured.\<close>

record completed_process =
  returncode :: int
  stdout :: bytes
  stderr :: bytes

text \<open>
  The library calls whose results the script depends on: \<^verbatim>\<open>subprocess.run\<close> on a command
  line, \<^verbatim>\<open>bytes.decode('utf-8')\<close> (\<open>None\<close> is \<^verbatim>\<open>UnicodeDecodeError\<close>) and \<^verbatim>\<open>json.loads\<close>
  (\<open>Inl\<close> carries the text of the \<^verbatim>\<open>JSONDecodeError\<close>). The properties below hold for
  every such triple. A call that fails in another way (no \<^verbatim>\<open>op\<close> program to run, a stream
  that cannot be written) is not represented.
\<close>

record world =
  subprocess_run :: "str list \<Rightarrow> completed_process"
  bytes_decode :: "bytes \<Rightarrow> str option"
  json_loads :: "str \<Rightarrow> str + pyobj"

section \<open>Operations on Python values\<close>

text \<open>\<^verbatim>\<open>obj[key]\<close> with a \<^verbatim>\<open>str\<close> key: only a \<^verbatim>\<open>dict\<close> can be subscripted by a string.\<close>

fun getitem :: "pyobj \<Rightarrow> str \<Rightarrow> exn + pyobj" where
  "getitem (PyDict kvs) k = (case map_of kvs k of None \<Rightarrow> Inl KeyError | Some v \<Rightarrow> Inr v)"
| "getitem _ k = Inl TypeError"

text \<open>
  What a \<^verbatim>\<open>for\<close> loop runs over: the elements of a \<^verbatim>\<open>list\<close>, the keys of a \<^verbatim>\<open>dict\<close>,
  the characters of a \<^verbatim>\<open>str\<close>; anything else is not iterable.
\<close>

fun iter :: "pyobj \<Rightarrow> exn + pyobj list" where
  "iter (PyList xs) = Inr xs"
| "iter (PyDict kvs) = Inr (map (\<lambda>kv. PyStr (fst kv)) kvs)"
| "iter (PyStr s) = Inr (map (\<lambda>c. PyStr [c]) s)"
| "iter _ = Inl TypeError"

text \<open>\<^verbatim>\<open>obj.get(key)\<close>: only a \<^verbatim>\<open>dict\<close> has the method; a missing key gives \<^verbatim>\<open>None\<close>.\<close>

fun dict_get :: "pyobj \<Rightarrow> str \<Rightarrow> exn + pyobj" where
  "dict_get (PyDict kvs) k = Inr (case map_of kvs k of None \<Rightarrow> PyNone | Some v \<Rightarrow> v)"
| "dict_get _ k = Inl AttributeError"

text \<open>A \<^verbatim>\<open>list\<close> or a \<^verbatim>\<open>dict\<close> cannot be a dictionary key.\<close>

fun hashable :: "pyobj \<Rightarrow> bool" where
  "hashable (PyList xs) = False"
| "hashable (PyDict kvs) = False"
| "hashable _ = True"

text \<open>
  \<^verbatim>\<open>==\<close> on hashable values: \<^verbatim>\<open>True\<close> and \<^verbatim>\<open>False\<close> are the integers 1 and 0, otherwise
  values of different types differ.
\<close>

fun py_eq :: "pyobj \<Rightarrow> pyobj \<Rightarrow> bool" where
  "py_eq (PyBool a) (PyBool b) = (a = b)"
| "py_eq (PyBool a) (PyInt j) = ((if a then 1 else 0) = j)"
| "py_eq (PyInt i) (PyBool b) = (i = (if b then 1 else 0))"
| "py_eq x y = (x = y)"

text \<open>
  The dictionary \<^verbatim>\<open>dupecheck\<close>, whose keys are arbitrary hashable values: the list of its
  items in insertion order, with \<^verbatim>\<open>key in d\<close> and \<^verbatim>\<open>d[key] = value\<close>.
\<close>

type_synonym pydict = "(pyobj \<times> pyobj) list"

definition dict_contains :: "pydict \<Rightarrow> pyobj \<Rightarrow> bool" where
  "dict_contains d key = list_ex (\<lambda>kv. py_eq (fst kv) key) d"

definition dict_setitem :: "pydict \<Rightarrow> pyobj \<Rightarrow> pyobj \<Rightarrow> pydict" where
  "dict_setitem d key v =
     (if dict_contains d key
      then map (\<lambda>kv. if py_eq (fst kv) key then (fst kv, v) else kv) d
      else d @ [(key, v)])"

subsection \<open>Formatting\<close>

fun dec_digits :: "nat \<Rightarrow> str" where
  "dec_digits n =
     (if n < 10 then [''0123456789'' ! n]
      else dec_digits (n div 10) @ [''0123456789'' ! (n mod 10)])"

declare dec_digits.simps [simp del]

definition int_str :: "int \<Rightarrow> str" where
  "int_str i = (if i < 0 then ''-'' @ dec_digits (nat (- i)) else dec_digits (nat i))"

definition hex2 :: "nat \<Rightarrow> str" where
  "hex2 n = [''0123456789abcdef'' ! (n div 16), ''0123456789abcdef'' ! (n mod 16)]"

text \<open>\<^verbatim>\<open>str.isprintable\<close> on one character, for the code points below 256.\<close>

definition printable :: "char \<Rightarrow> bool" where
  "printable c =
     (let n = (of_char c :: nat)
      in (32 \<le> n \<and> n < 127) \<or> (161 \<le> n \<and> n \<noteq> 173))"

text \<open>
  \<^verbatim>\<open>repr\<close> of a \<^verbatim>\<open>str\<close>: single quotes unless the text has a single quote and no double
  quote; the quote and the backslash are escaped, tab, newline and carriage return are
  written \<^verbatim>\<open>\t\<close>, \<^verbatim>\<open>\n\<close>, \<^verbatim>\<open>\r\<close>, any other unprintable character \<^verbatim>\<open>\xNN\<close>.
\<close>

definition repr_char :: "char \<Rightarrow> char \<Rightarrow> str" where
  "repr_char q c =
     (if c = q \<or> c = CHR 0x5C then [CHR 0x5C, c]
      else if c = CHR 0x09 then [CHR 0x5C, CHR ''t'']
      else if c = CHR 0x0A then [CHR 0x5C, CHR ''n'']
      else if c = CHR 0x0D then [CHR 0x5C, CHR ''r'']
      else if printable c then [c]
      else [CHR 0x5C, CHR ''x''] @ hex2 (of_char c))"

definition str_repr :: "str \<Rightarrow> str" where
  "str_repr s =
     (let q = (if CHR 0x27 \<in> set s \<and> CHR 0x22 \<notin> set s then CHR 0x22 else CHR 0x27)
      in [q] @ concat (map (repr_char q) s) @ [q])"

fun join :: "str \<Rightarrow> str list \<Rightarrow> str" where
  "join sep [] = []"
| "join sep [x] = x"
| "join sep (x # y # ys) = x @ sep @ join sep (y # ys)"

fun py_repr :: "pyobj \<Rightarrow> str" where
  "py_repr PyNone = ''None''"
| "py_repr (PyBool b) = (if b then ''True'' else ''False'')"
| "py_repr (PyInt i) = int_str i"
| "py_repr (PyStr s) = str_repr s"
| "py_repr (PyList xs) = ''['' @ join '', '' (map py_repr xs) @ '']''"
| "py_repr (PyDict kvs) =
     ''{'' @ join '', '' (map (\<lambda>kv. str_repr (fst kv) @ '': '' @ py_repr (snd kv)) kvs) @ ''}''"

text \<open>What an f-string puts in place of \<^verbatim>\<open>{x}\<close>: \<^verbatim>\<open>str(x)\<close>.\<close>

fun py_str :: "pyobj \<Rightarrow> str" where
  "py_str (PyStr s) = s"
| "py_str x = py_repr x"

subsection \<open>Whitespace\<close>

text \<open>\<^verbatim>\<open>str.isspace\<close> on one character, for the code points below 256.\<close>

definition isspace :: "char \<Rightarrow> bool" where
  "isspace c =
     (let n = (of_char c :: nat)
      in (9 \<le> n \<and> n \<le> 13) \<or> (28 \<le> n \<and> n \<le> 32) \<or> n = 133 \<or> n = 160)"

text \<open>\<^verbatim>\<open>s.strip()\<close>: whitespace removed from both ends.\<close>

definition strip :: "str \<Rightarrow> str" where
  "strip s = rev (dropWhile isspace (rev (dropWhile isspace s)))"

section \<open>The script\<close>

text \<open>
  Lines 9 to 11. \<^verbatim>\<open>sys.argv[1]\<close> and \<^verbatim>\<open>sys.argv[2]\<close> are read without a check of
  \<^verbatim>\<open>len(sys.argv)\<close>: an index out of range raises \<^verbatim>\<open>IndexError\<close>. The result is
  \<^verbatim>\<open>(vault_id, item_name, secret_name)\<close>.
\<close>

definition argument_resolution :: "str list \<Rightarrow> exn + str \<times> str \<times> str" where
  "argument_resolution argv =
     (if length argv \<le> 1 then Inl IndexError
      else let vault_id = argv ! 1 in
        if length argv \<le> 2 then Inl IndexError
        else let item_name = argv ! 2;
                 secret_name = (if length argv > 3 then argv ! 3 else item_name)
             in Inr (vault_id, item_name, secret_name))"

text \<open>
  Lines 13 to 29: run \<^verbatim>\<open>op\<close>, check its return code, decode and parse its output. \<open>Inl\<close>
  is a run that ended here, \<open>Inr\<close> the parsed \<^verbatim>\<open>content\<close>.
\<close>

definition op_command :: "str \<Rightarrow> str \<Rightarrow> str list" where
  "op_command vault_id item_name =
     [''op'', ''item'', ''get'', item_name, ''--reveal'', ''--vault'', vault_id,
      ''--format'', ''json'']"

definition fetch :: "world \<Rightarrow> str \<Rightarrow> str \<Rightarrow> run + pyobj" where
  \<open>fetch w vault_id item_name =
     (let result = subprocess_run w (op_command vault_id item_name)
      in if returncode result \<noteq> 0 then
           (let line = ''Error fetching item '' @ [CHR 0x27] @ item_name @ [CHR 0x27]
                       @ '' from vault '' @ [CHR 0x27] @ vault_id @ [CHR 0x27] @ '':''
            in case bytes_decode w (stderr result) of
                 None \<Rightarrow> Inl \<lparr>out = [], err = [line], final = Uncaught UnicodeDecodeError\<rparr>
               | Some text \<Rightarrow> Inl \<lparr>out = [], err = [line, text], final = SystemExit 1\<rparr>)
         else
           (case bytes_decode w (stdout result) of
              None \<Rightarrow> Inl \<lparr>out = [], err = [], final = Uncaught UnicodeDecodeError\<rparr>
            | Some secret \<Rightarrow>
                if strip secret = [] then
                  Inl \<lparr>out = [],
                       err = [''Error: Empty response from 1Password for item '' @ [CHR 0x27]
                              @ item_name @ [CHR 0x27]],
                       final = SystemExit 1\<rparr>
                else
                  (case json_loads w secret of
                     Inl e \<Rightarrow>
                       Inl \<lparr>out = [],
                            err = [''Error parsing JSON response: '' @ e,
                                   ''Raw response: '' @ take 500 secret],
                            final = SystemExit 1\<rparr>
                   | Inr content \<Rightarrow> Inr content)))\<close>

text \<open>Lines 31 to 35: the five lines printed before the fields are looked at.\<close>

definition header :: "str \<Rightarrow> str list" where
  "header secret_name =
     [''apiVersion: v1'', ''kind: Secret'', ''metadata:'', ''  name: '' @ secret_name,
      ''stringData:'']"

text \<open>
  Lines 37 to 43, the body of the first loop over the fields, with the dictionary
  \<^verbatim>\<open>dupecheck\<close> passed along. The loop stops by an exception or by
  \<^verbatim>\<open>sys.exit(message)\<close>, which prints the message on \<^verbatim>\<open>sys.stderr\<close> and exits with status 1.
\<close>

datatype abort = Raise exn | Exit_message str

fun dupecheck_loop :: "pyobj list \<Rightarrow> pydict \<Rightarrow> abort + pydict" where
  "dupecheck_loop [] dupecheck = Inr dupecheck"
| "dupecheck_loop (field # rest) dupecheck =
     (case dict_get field ''label'' of
        Inl x \<Rightarrow> Inl (Raise x)
      | Inr key \<Rightarrow>
          (case dict_get field ''value'' of
             Inl x \<Rightarrow> Inl (Raise x)
           | Inr val \<Rightarrow>
               if \<not> hashable key then Inl (Raise TypeError)
               else if dict_contains dupecheck key
                 then Inl (Exit_message (''Error: duplicate key: '' @ py_str key))
               else dupecheck_loop rest (dict_setitem dupecheck key val)))"

text \<open>
  Lines 46 to 51, the second loop: the lines printed so far are passed along, and the
  loop returns them with the exception that stopped it, if any.
\<close>

fun emission_loop :: "pyobj list \<Rightarrow> str list \<Rightarrow> str list \<times> exn option" where
  \<open>emission_loop [] printed = (printed, None)\<close>
| \<open>emission_loop (field # rest) printed =
     (case dict_get field ''label'' of
        Inl x \<Rightarrow> (printed, Some x)
      | Inr key \<Rightarrow>
          (case dict_get field ''value'' of
             Inl x \<Rightarrow> (printed, Some x)
           | Inr val \<Rightarrow>
               (case dict_get field ''type'' of
                  Inl x \<Rightarrow> (printed, Some x)
                | Inr type \<Rightarrow>
                    if type = PyStr ''CONCEALED'' \<and> key \<noteq> PyStr ''password''
                    then emission_loop rest
                           (printed @ [''  '' @ py_str key @ '': "'' @ py_str val @ ''"''])
                    else emission_loop rest printed)))\<close>

text \<open>Lines 31 to 51: everything after the response has been parsed.\<close>

definition manifest :: "str \<Rightarrow> pyobj \<Rightarrow> run" where
  "manifest secret_name content =
     (let printed = header secret_name in
      case getitem content ''fields'' of
        Inl x \<Rightarrow> \<lparr>out = printed, err = [], final = Uncaught x\<rparr>
      | Inr fields1 \<Rightarrow>
          (case iter fields1 of
             Inl x \<Rightarrow> \<lparr>out = printed, err = [], final = Uncaught x\<rparr>
           | Inr fs \<Rightarrow>
               (case dupecheck_loop fs [] of
                  Inl (Raise x) \<Rightarrow> \<lparr>out = printed, err = [], final = Uncaught x\<rparr>
                | Inl (Exit_message m) \<Rightarrow> \<lparr>out = printed, err = [m], final = SystemExit 1\<rparr>
                | Inr dupecheck \<Rightarrow>
                    (case getitem content ''fields'' of
                       Inl x \<Rightarrow> \<lparr>out = printed, err = [], final = Uncaught x\<rparr>
                     | Inr fields2 \<Rightarrow>
                         (case iter fields2 of
                            Inl x \<Rightarrow> \<lparr>out = printed, err = [], final = Uncaught x\<rparr>
                          | Inr fs2 \<Rightarrow>
                              (case emission_loop fs2 printed of
                                 (printed2, None) \<Rightarrow>
                                   \<lparr>out = printed2, err = [], final = Finished\<rparr>
                               | (printed2, Some x) \<Rightarrow>
                                   \<lparr>out = printed2, err = [], final = Uncaught x\<rparr>))))))"

text \<open>The whole script, run with the command line \<open>argv\<close> (\<^verbatim>\<open>sys.argv\<close>).\<close>

definition op_to_yaml :: "world \<Rightarrow> str list \<Rightarrow> run" where
  "op_to_yaml w argv =
     (case argument_resolution argv of
        Inl x \<Rightarrow> \<lparr>out = [], err = [], final = Uncaught x\<rparr>
      | Inr (vault_id, item_name, secret_name) \<Rightarrow>
          (case fetch w vault_id item_name of
             Inl r \<Rightarrow> r
           | Inr content \<Rightarrow> manifest secret_name content))"

section \<open>Notions used to state the properties\<close>

text \<open>Whether a value is a \<^verbatim>\<open>dict\<close>, and \<^verbatim>\<open>.get\<close> on a value that is one.\<close>

fun is_dict :: "pyobj \<Rightarrow> bool" where
  "is_dict (PyDict kvs) = True"
| "is_dict _ = False"

fun field_get :: "pyobj \<Rightarrow> str \<Rightarrow> pyobj" where
  "field_get (PyDict kvs) k = (case map_of kvs k of None \<Rightarrow> PyNone | Some v \<Rightarrow> v)"
| "field_get _ k = PyNone"

text \<open>
  The \<^verbatim>\<open>stringData\<close> block as the specification describes it, to be compared with what
  the second loop prints: the fields whose type is the concealed marker and whose label
  is not \<^verbatim>\<open>password\<close>, in their order, each as two spaces, the label, a colon and a
  space, and the value between double quotes, with nothing escaped.
\<close>

definition concealed_not_password :: "pyobj \<Rightarrow> bool" where
  "concealed_not_password f =
     (field_get f ''type'' = PyStr ''CONCEALED'' \<and> field_get f ''label'' \<noteq> PyStr ''password'')"

definition stringData_entry :: "pyobj \<Rightarrow> str" where
  \<open>stringData_entry f =
     ''  '' @ py_str (field_get f ''label'') @ '': "'' @ py_str (field_get f ''value'') @ ''"''\<close>

definition stringData_block :: "pyobj list \<Rightarrow> str list" where
  "stringData_block fs = map stringData_entry (filter concealed_not_password fs)"

text \<open>No two fields of a list carry the same label, as \<^verbatim>\<open>==\<close> compares labels.\<close>

fun labels_differ :: "pyobj list \<Rightarrow> bool" where
  "labels_differ [] = True"
| "labels_differ (f # fs) =
     (\<not> list_ex (\<lambda>g. py_eq (field_get f ''label'') (field_get g ''label'')) fs \<and> labels_differ fs)"

section \<open>Example runs\<close>

text \<open>
  A stand-in for the library calls, for running the script on examples: \<^verbatim>\<open>op\<close> always
  returns the given return code and streams, the decoder accepts ASCII bytes (which
  UTF-8 decodes to themselves) and rejects a byte of 128 or more where the examples
  put one, and \<^verbatim>\<open>json.loads\<close> gives the canned answer.
\<close>

definition ascii_decode :: "bytes \<Rightarrow> str option" where
  "ascii_decode b = (if list_all (\<lambda>c. (of_char c :: nat) < 128) b then Some b else None)"

definition canned :: "int \<Rightarrow> bytes \<Rightarrow> bytes \<Rightarrow> (str \<Rightarrow> str + pyobj) \<Rightarrow> world" where
  "canned rc so se loads =
     \<lparr>subprocess_run = (\<lambda>cmd. \<lparr>returncode = rc, stdout = so, stderr = se\<rparr>),
      bytes_decode = ascii_decode, json_loads = loads\<rparr>"

text \<open>The message of \<^verbatim>\<open>json.loads\<close> on text that does not start a JSON value.\<close>

definition json_error :: str where
  "json_error = ''Expecting value: line 1 column 1 (char 0)''"

text \<open>A field with the three keys of the data model, all of them strings.\<close>

definition field :: "str \<Rightarrow> str \<Rightarrow> str \<Rightarrow> pyobj" where
  "field l v t = PyDict [(''label'', PyStr l), (''value'', PyStr v), (''type'', PyStr t)]"

text \<open>The item \<^verbatim>\<open>db-creds\<close> of the round-trip example, and the JSON text of its record.\<close>

definition db_creds_fields :: "pyobj list" where
  "db_creds_fields =
     [field ''username'' ''admin'' ''STRING'',
      field ''api_key'' ''xyz123'' ''CONCEALED'',
      field ''password'' ''secret'' ''CONCEALED'']"

definition db_creds_text :: bytes where
  \<open>db_creds_text =
     ''{"fields": [{"label": "username", "value": "admin", "type": "STRING"}, ''
     @ ''{"label": "api_key", "value": "xyz123", "type": "CONCEALED"}, ''
     @ ''{"label": "password", "value": "secret", "type": "CONCEALED"}]}''\<close>

text \<open>A record with a double quote inside a concealed value.\<close>

definition quoted_fields :: "pyobj list" where
  \<open>quoted_fields =
     [field ''user'' ''bob'' ''STRING'', field ''token'' ''a"b'' ''CONCEALED'',
      field ''password'' ''pw'' ''CONCEALED'', field ''pin'' ''1234'' ''CONCEALED'']\<close>

definition quoted_text :: bytes where
  \<open>quoted_text =
     ''{"fields": [{"label": "user", "value": "bob", "type": "STRING"}, ''
     @ ''{"label": "token", "value": "a'' @ [CHR 0x5C] @ ''"b", "type": "CONCEALED"}, ''
     @ ''{"label": "password", "value": "pw", "type": "CONCEALED"}, ''
     @ ''{"label": "pin", "value": "1234", "type": "CONCEALED"}]}''\<close>

text \<open>
  A record whose third field repeats the label of the first, neither of them concealed,
  followed by an element that is no field at all.
\<close>

definition repeated_fields :: "pyobj list" where
  "repeated_fields =
     [field ''username'' ''admin'' ''STRING'', field ''api_key'' ''xyz123'' ''CONCEALED'',
      field ''username'' ''root'' ''STRING'', PyInt 5]"

definition repeated_text :: bytes where
  \<open>repeated_text =
     ''{"fields": [{"label": "username", "value": "admin", "type": "STRING"}, ''
     @ ''{"label": "api_key", "value": "xyz123", "type": "CONCEALED"}, ''
     @ ''{"label": "username", "value": "root", "type": "STRING"}, 5]}''\<close>

section \<open>Lemmas about the parts of the script\<close>

lemma strip_Nil_iff: "strip s = [] \<longleftrightarrow> list_all isspace s"
proof
  assume "strip s = []"
  then have a: "\<forall>c \<in> set (dropWhile isspace s). isspace c"
    by (simp add: strip_def)
  have "dropWhile isspace s = []"
  proof (rule ccontr)
    assume n: "dropWhile isspace s \<noteq> []"
    then have "\<not> isspace (hd (dropWhile isspace s))" by (rule hd_dropWhile)
    moreover have "hd (dropWhile isspace s) \<in> set (dropWhile isspace s)" using n by simp
    ultimately show False using a by blast
  qed
  then show "list_all isspace s" by (simp add: list_all_iff)
next
  assume "list_all isspace s"
  then have "dropWhile isspace s = []" by (simp add: list_all_iff)
  then show "strip s = []" by (simp add: strip_def del: dropWhile_eq_Nil_conv)
qed

lemma argument_resolution_short: "length argv < 3 \<Longrightarrow> argument_resolution argv = Inl IndexError"
  by (simp add: argument_resolution_def Let_def)

lemma argument_resolution_ok:
  "3 \<le> length argv \<Longrightarrow>
   argument_resolution argv = Inr (argv ! 1, argv ! 2, if length argv > 3 then argv ! 3 else argv ! 2)"
  by (simp add: argument_resolution_def Let_def)

lemma dict_get_dict: "is_dict f \<Longrightarrow> dict_get f k = Inr (field_get f k)"
  by (cases f) simp_all

lemma dict_get_other: "\<not> is_dict f \<Longrightarrow> dict_get f k = Inl AttributeError"
  by (cases f) simp_all

lemma dupecheck_loop_dicts:
  "dupecheck_loop fs d = Inr d' \<Longrightarrow> list_all is_dict fs"
proof (induction fs arbitrary: d)
  case Nil
  then show ?case by simp
next
  case (Cons f fs)
  show ?case
  proof (cases "is_dict f")
    case True
    with Cons.prems have "\<exists>d1. dupecheck_loop fs d1 = Inr d'"
      by (auto simp: dict_get_dict split: if_splits)
    with Cons.IH True show ?thesis by auto
  next
    case False
    with Cons.prems show ?thesis by (simp add: dict_get_other)
  qed
qed

lemma emission_loop_dicts:
  "list_all is_dict fs \<Longrightarrow> emission_loop fs printed = (printed @ stringData_block fs, None)"
proof (induction fs arbitrary: printed)
  case Nil
  then show ?case by (simp add: stringData_block_def)
next
  case (Cons f fs)
  then have d: "is_dict f" and r: "list_all is_dict fs" by simp_all
  show ?case
    using Cons.IH [OF r] d
    by (simp add: dict_get_dict stringData_block_def concealed_not_password_def
        stringData_entry_def)
qed

lemma emission_loop_extends: "\<exists>ys. fst (emission_loop fs printed) = printed @ ys"
proof (induction fs arbitrary: printed)
  case Nil
  then show ?case by simp
next
  case (Cons f fs)
  show ?case
  proof (cases "is_dict f")
    case True
    show ?thesis
    proof (cases "field_get f ''type'' = PyStr ''CONCEALED'' \<and> field_get f ''label'' \<noteq> PyStr ''password''")
      case c: True
      obtain ys where "fst (emission_loop fs (printed @ [stringData_entry f])) = (printed @ [stringData_entry f]) @ ys"
        using Cons.IH by blast
      with True c show ?thesis by (simp add: dict_get_dict stringData_entry_def)
    next
      case c: False
      obtain ys where "fst (emission_loop fs printed) = printed @ ys"
        using Cons.IH by blast
      with True c show ?thesis by (auto simp add: dict_get_dict)
    qed
  next
    case False
    then show ?thesis by (simp add: dict_get_other)
  qed
qed

lemma dupecheck_loop_append:
  "dupecheck_loop (pre @ rest) d =
     (case dupecheck_loop pre d of Inl a \<Rightarrow> Inl a | Inr d' \<Rightarrow> dupecheck_loop rest d')"
proof (induction pre arbitrary: d)
  case Nil
  then show ?case by simp
next
  case (Cons f pre)
  then show ?case by (simp split: sum.splits)
qed

lemma dict_contains_setitem_new:
  "\<not> dict_contains d key \<Longrightarrow>
   dict_contains (dict_setitem d key v) k \<longleftrightarrow> dict_contains d k \<or> py_eq key k"
  by (auto simp: dict_setitem_def dict_contains_def)

lemma dupecheck_loop_keys:
  "dupecheck_loop fs d = Inr d' \<Longrightarrow>
   dict_contains d' k \<longleftrightarrow> dict_contains d k \<or> list_ex (\<lambda>g. py_eq (field_get g ''label'') k) fs"
proof (induction fs arbitrary: d)
  case Nil
  then show ?case by simp
next
  case (Cons f fs)
  from Cons.prems have df: "is_dict f"
    using dupecheck_loop_dicts by fastforce
  from Cons.prems df have nc: "\<not> dict_contains d (field_get f ''label'')"
    and rest: "dupecheck_loop fs (dict_setitem d (field_get f ''label'') (field_get f ''value'')) = Inr d'"
    by (auto simp: dict_get_dict split: if_splits)
  show ?case
    using Cons.IH [OF rest] dict_contains_setitem_new [OF nc]
    by auto
qed

lemma manifest_no_getitem:
  "getitem content ''fields'' = Inl x \<Longrightarrow>
   manifest n content = \<lparr>out = header n, err = [], final = Uncaught x\<rparr>"
  by (simp add: manifest_def)

lemma manifest_no_iter:
  "getitem content ''fields'' = Inr v \<Longrightarrow> iter v = Inl x \<Longrightarrow>
   manifest n content = \<lparr>out = header n, err = [], final = Uncaught x\<rparr>"
  by (simp add: manifest_def)

lemma manifest_abort:
  "getitem content ''fields'' = Inr v \<Longrightarrow> iter v = Inr fs \<Longrightarrow> dupecheck_loop fs [] = Inl a \<Longrightarrow>
   manifest n content =
     (case a of Raise x \<Rightarrow> \<lparr>out = header n, err = [], final = Uncaught x\<rparr>
      | Exit_message m \<Rightarrow> \<lparr>out = header n, err = [m], final = SystemExit 1\<rparr>)"
  by (simp add: manifest_def split: abort.splits)

lemma manifest_valid:
  "getitem content ''fields'' = Inr v \<Longrightarrow> iter v = Inr fs \<Longrightarrow> dupecheck_loop fs [] = Inr d \<Longrightarrow>
   manifest n content = \<lparr>out = header n @ stringData_block fs, err = [], final = Finished\<rparr>"
  using emission_loop_dicts [OF dupecheck_loop_dicts, of fs "[]" d "header n"]
  by (simp add: manifest_def)

lemma manifest_out_header: "\<exists>ys. out (manifest n content) = header n @ ys"
proof (cases "getitem content ''fields''")
  case (Inl x)
  then show ?thesis by (simp add: manifest_no_getitem)
next
  case v: (Inr v)
  show ?thesis
  proof (cases "iter v")
    case (Inl x)
    with v show ?thesis by (simp add: manifest_no_iter)
  next
    case fs: (Inr fs)
    show ?thesis
    proof (cases "dupecheck_loop fs []")
      case (Inl a)
      with v fs show ?thesis by (cases a) (simp_all add: manifest_abort)
    next
      case (Inr d)
      with v fs show ?thesis by (simp add: manifest_valid)
    qed
  qed
qed

lemma op_to_yaml_fetched:
  "3 \<le> length argv \<Longrightarrow> fetch w (argv ! 1) (argv ! 2) = Inr content \<Longrightarrow>
   op_to_yaml w argv = manifest (if length argv > 3 then argv ! 3 else argv ! 2) content"
  by (simp add: op_to_yaml_def argument_resolution_ok)

lemma fetch_out_empty: "fetch w v i = Inl r \<Longrightarrow> out r = []"
  by (auto simp: fetch_def Let_def split: if_splits option.splits sum.splits)

lemmas run_simps =
  op_to_yaml_def argument_resolution_def fetch_def manifest_def header_def op_command_def
  canned_def ascii_decode_def strip_Nil_iff isspace_def dict_contains_def dict_setitem_def
  field_def json_error_def Let_def

lemma fetch_parsed:
  assumes "returncode (subprocess_run w (op_command v i)) = 0"
    and "bytes_decode w (stdout (subprocess_run w (op_command v i))) = Some secret"
    and "\<not> list_all isspace secret"
    and "json_loads w secret = Inr content"
  shows "fetch w v i = Inr content"
  using assms by (simp add: fetch_def strip_Nil_iff)

lemma dupecheck_loop_raises:
  "dupecheck_loop fs d = Inl (Raise x) \<Longrightarrow> x = AttributeError \<or> x = TypeError"
proof (induction fs arbitrary: d)
  case Nil
  then show ?case by simp
next
  case (Cons f fs)
  show ?case
  proof (cases "is_dict f")
    case True
    with Cons.prems have
      "\<not> hashable (field_get f ''label'') \<and> x = TypeError \<or>
       (\<exists>d1. dupecheck_loop fs d1 = Inl (Raise x))"
      by (auto simp: dict_get_dict split: if_splits)
    with Cons.IH show ?thesis by blast
  next
    case False
    with Cons.prems show ?thesis by (simp add: dict_get_other)
  qed
qed

lemma getitem_raises: "getitem c k = Inl x \<Longrightarrow> x = KeyError \<or> x = TypeError"
  by (cases c) (auto split: option.splits)

lemma iter_raises: "iter v = Inl x \<Longrightarrow> x = TypeError"
  by (cases v) auto

lemma manifest_no_IndexError: "final (manifest n content) \<noteq> Uncaught IndexError"
proof (cases "getitem content ''fields''")
  case (Inl x)
  then show ?thesis using getitem_raises [OF Inl] by (auto simp: manifest_no_getitem)
next
  case v: (Inr v)
  show ?thesis
  proof (cases "iter v")
    case (Inl x)
    with v show ?thesis using iter_raises [OF Inl] by (simp add: manifest_no_iter)
  next
    case fs: (Inr fs)
    show ?thesis
    proof (cases "dupecheck_loop fs []")
      case (Inl a)
      show ?thesis
      proof (cases a)
        case (Raise x)
        with Inl v fs show ?thesis
          using dupecheck_loop_raises [of fs "[]" x] by (auto simp: manifest_abort)
      next
        case (Exit_message m)
        with Inl v fs show ?thesis by (simp add: manifest_abort)
      qed
    next
      case (Inr d)
      with v fs show ?thesis by (simp add: manifest_valid)
    qed
  qed
qed

lemma fetch_no_IndexError: "fetch w v i = Inl r \<Longrightarrow> final r \<noteq> Uncaught IndexError"
  by (auto simp: fetch_def Let_def split: if_splits option.splits sum.splits)

lemma fetch_Inr_iff:
  "fetch w v i = Inr content \<longleftrightarrow>
     returncode (subprocess_run w (op_command v i)) = 0 \<and>
     (\<exists>secret. bytes_decode w (stdout (subprocess_run w (op_command v i))) = Some secret \<and>
        \<not> list_all isspace secret \<and> json_loads w secret = Inr content)"
  by (auto simp: fetch_def Let_def strip_Nil_iff split: if_splits option.splits sum.splits)

lemma py_eq_hashable: "py_eq a b \<Longrightarrow> hashable a \<Longrightarrow> hashable b"
  by (cases a; cases b) auto

lemma dupecheck_loop_hashable:
  "dupecheck_loop fs d = Inr d' \<Longrightarrow> list_all (\<lambda>f. hashable (field_get f ''label'')) fs"
proof (induction fs arbitrary: d)
  case Nil
  then show ?case by simp
next
  case (Cons f fs)
  from Cons.prems have df: "is_dict f"
    using dupecheck_loop_dicts by fastforce
  from Cons.prems df have h: "hashable (field_get f ''label'')"
    and rest: "\<exists>d1. dupecheck_loop fs d1 = Inr d'"
    by (auto simp: dict_get_dict split: if_splits)
  with Cons.IH show ?case by auto
qed

lemma dupecheck_loop_passes:
  assumes "list_all is_dict fs"
    and "list_all (\<lambda>f. hashable (field_get f ''label'')) fs"
    and "labels_differ fs"
    and "\<not> list_ex (\<lambda>g. dict_contains d (field_get g ''label'')) fs"
  shows "\<exists>d'. dupecheck_loop fs d = Inr d'"
  using assms
proof (induction fs arbitrary: d)
  case Nil
  then show ?case by simp
next
  case (Cons f fs)
  let ?d = "dict_setitem d (field_get f ''label'') (field_get f ''value'')"
  have nc: "\<not> dict_contains d (field_get f ''label'')" using Cons.prems(4) by simp
  have "\<not> list_ex (\<lambda>g. dict_contains ?d (field_get g ''label'')) fs"
    using Cons.prems(3,4) dict_contains_setitem_new [OF nc]
    by (auto simp: list_ex_iff)
  then have "\<exists>d'. dupecheck_loop fs ?d = Inr d'"
    using Cons.IH Cons.prems by simp
  then show ?case
    using Cons.prems(1,2) nc by (simp add: dict_get_dict)
qed

lemma dupecheck_loop_fresh:
  "dupecheck_loop fs d = Inr d' \<Longrightarrow>
   \<not> list_ex (\<lambda>g. dict_contains d (field_get g ''label'')) fs \<and> labels_differ fs"
proof (induction fs arbitrary: d)
  case Nil
  then show ?case by simp
next
  case (Cons f fs)
  let ?d = "dict_setitem d (field_get f ''label'') (field_get f ''value'')"
  from Cons.prems have df: "is_dict f"
    using dupecheck_loop_dicts by fastforce
  from Cons.prems df have nc: "\<not> dict_contains d (field_get f ''label'')"
    and rest: "dupecheck_loop fs ?d = Inr d'"
    by (auto simp: dict_get_dict split: if_splits)
  from Cons.IH [OF rest] have
    fresh: "\<not> list_ex (\<lambda>g. dict_contains ?d (field_get g ''label'')) fs"
    and diff: "labels_differ fs" by simp_all
  from fresh have
    "\<not> list_ex (\<lambda>g. dict_contains d (field_get g ''label'')) fs"
    "\<not> list_ex (\<lambda>g. py_eq (field_get f ''label'') (field_get g ''label'')) fs"
    using dict_contains_setitem_new [OF nc] by (auto simp: list_ex_iff)
  with nc diff show ?case by simp
qed

text \<open>
  What passing the scan of lines 37 to 43 means: every item is a \<^verbatim>\<open>dict\<close>, every label
  can be a dictionary key, and no two labels are equal.
\<close>

lemma dupecheck_loop_passes_iff:
  "(\<exists>d. dupecheck_loop fs [] = Inr d) \<longleftrightarrow>
     list_all is_dict fs \<and> list_all (\<lambda>f. hashable (field_get f ''label'')) fs \<and> labels_differ fs"
proof
  assume "\<exists>d. dupecheck_loop fs [] = Inr d"
  then obtain d where d: "dupecheck_loop fs [] = Inr d" by blast
  show "list_all is_dict fs \<and> list_all (\<lambda>f. hashable (field_get f ''label'')) fs \<and> labels_differ fs"
    using dupecheck_loop_dicts [OF d] dupecheck_loop_hashable [OF d] dupecheck_loop_fresh [OF d]
    by simp
next
  assume a: "list_all is_dict fs \<and> list_all (\<lambda>f. hashable (field_get f ''label'')) fs \<and> labels_differ fs"
  have "\<not> list_ex (\<lambda>g. dict_contains [] (field_get g ''label'')) fs"
    by (simp add: dict_contains_def list_ex_iff)
  with a show "\<exists>d. dupecheck_loop fs [] = Inr d"
    using dupecheck_loop_passes by blast
qed

lemma dupecheck_loop_exit_message:
  "dupecheck_loop fs d = Inl (Exit_message m) \<Longrightarrow>
   \<exists>f \<in> set fs. m = ''Error: duplicate key: '' @ py_str (field_get f ''label'')"
proof (induction fs arbitrary: d)
  case Nil
  then show ?case by simp
next
  case (Cons f fs)
  show ?case
  proof (cases "is_dict f")
    case True
    with Cons.prems have
      "m = ''Error: duplicate key: '' @ py_str (field_get f ''label'') \<or>
       (\<exists>d1. dupecheck_loop fs d1 = Inl (Exit_message m))"
      by (auto simp: dict_get_dict split: if_splits)
    with Cons.IH show ?thesis by auto
  next
    case False
    with Cons.prems show ?thesis by (simp add: dict_get_other)
  qed
qed

lemma dupecheck_loop_no_raise:
  "list_all is_dict fs \<Longrightarrow> list_all (\<lambda>f. hashable (field_get f ''label'')) fs \<Longrightarrow>
   dupecheck_loop fs d \<noteq> Inl (Raise x)"
proof (induction fs arbitrary: d)
  case Nil
  then show ?case by simp
next
  case (Cons f fs)
  then show ?case by (simp add: dict_get_dict)
qed

text \<open>
  On every list of fields in which a label repeats, the run ends with the duplicate
  diagnostic and exit code 1, and the five header lines are on standard output.
\<close>

lemma repeated_label_exits:
  assumes "3 \<le> length argv"
    and "fetch w (argv ! 1) (argv ! 2) = Inr content"
    and "getitem content ''fields'' = Inr (PyList fs)"
    and "list_all is_dict fs"
    and "list_all (\<lambda>f. hashable (field_get f ''label'')) fs"
    and "\<not> labels_differ fs"
  shows "\<exists>f \<in> set fs. op_to_yaml w argv =
    \<lparr>out = header (if length argv > 3 then argv ! 3 else argv ! 2),
     err = [''Error: duplicate key: '' @ py_str (field_get f ''label'')],
     final = SystemExit 1\<rparr>"
proof (cases "dupecheck_loop fs []")
  case (Inl a)
  show ?thesis
  proof (cases a)
    case (Raise x)
    with Inl assms(4,5) show ?thesis using dupecheck_loop_no_raise by blast
  next
    case (Exit_message m)
    with Inl obtain f where "f \<in> set fs"
      "m = ''Error: duplicate key: '' @ py_str (field_get f ''label'')"
      using dupecheck_loop_exit_message by blast
    with Inl Exit_message assms(1,2,3) show ?thesis
      by (auto simp: op_to_yaml_fetched manifest_abort)
  qed
next
  case (Inr d)
  with assms(6) show ?thesis using dupecheck_loop_fresh by blast
qed

section \<open>The properties\<close>

subsection \<open>Duplicate labels\<close>

text \<open>
  Claim C1 (a record with two fields of the same label: the run fails with the
  duplicate-field error and exit code 1 and puts nothing on standard output, the scan
  being complete before anything is printed). The script prints its five header lines
  at lines 31 to 35, before the scan of lines 37 to 43 starts: on a record whose two
  fields are both labelled \<^verbatim>\<open>api_key\<close> the run exits with code 1 and the diagnostic, and
  the five lines are on standard output.
\<close>

theorem duplicate_label_after_header:
  \<open>op_to_yaml
     (canned 0
        ''{"fields": [{"label": "api_key", "value": "a", "type": "CONCEALED"}, {"label": "api_key", "value": "b", "type": "CONCEALED"}]}''
        []
        (\<lambda>s. Inr (PyDict [(''fields'',
            PyList [field ''api_key'' ''a'' ''CONCEALED'', field ''api_key'' ''b'' ''CONCEALED''])])))
     [''op_to_yaml.py'', ''v1'', ''db-creds''] =
   \<lparr>out = [''apiVersion: v1'', ''kind: Secret'', ''metadata:'', ''  name: db-creds'', ''stringData:''],
    err = [''Error: duplicate key: api_key''],
    final = SystemExit 1\<rparr>\<close>
  by (simp add: run_simps)

text \<open>
  Claim C3: validation runs over the whole field list, whatever the fields' types and
  labels. When the scan has passed the fields \<open>pre\<close> and the next field \<open>f\<close> carries a
  label that one of them has, the run ends there with exit code 1 and the diagnostic
  naming that label on the error stream; what follows \<open>f\<close> is never looked at.
\<close>

theorem duplicate_label_exit:
  assumes "3 \<le> length argv"
    and "fetch w (argv ! 1) (argv ! 2) = Inr content"
    and "getitem content ''fields'' = Inr (PyList (pre @ f # rest))"
    and "dupecheck_loop pre [] = Inr dupecheck"
    and "is_dict f"
    and "list_ex (\<lambda>g. py_eq (field_get g ''label'') (field_get f ''label'')) pre"
  shows "op_to_yaml w argv =
    \<lparr>out = header (if length argv > 3 then argv ! 3 else argv ! 2),
     err = [''Error: duplicate key: '' @ py_str (field_get f ''label'')],
     final = SystemExit 1\<rparr>"
proof -
  have present: "dict_contains dupecheck (field_get f ''label'')"
    using dupecheck_loop_keys [OF assms(4), of "field_get f ''label''"] assms(6)
    by (simp add: dict_contains_def)
  obtain g where "g \<in> set pre" "py_eq (field_get g ''label'') (field_get f ''label'')"
    using assms(6) by (auto simp: list_ex_iff)
  moreover have "hashable (field_get g ''label'')"
    using dupecheck_loop_hashable [OF assms(4)] \<open>g \<in> set pre\<close> by (simp add: list_all_iff)
  ultimately have key: "hashable (field_get f ''label'')"
    using py_eq_hashable by blast
  have "dupecheck_loop (f # rest) dupecheck =
          Inl (Exit_message (''Error: duplicate key: '' @ py_str (field_get f ''label'')))"
    using assms(5) key present by (simp add: dict_get_dict)
  then have "dupecheck_loop (pre @ f # rest) [] =
          Inl (Exit_message (''Error: duplicate key: '' @ py_str (field_get f ''label'')))"
    using assms(4) by (simp add: dupecheck_loop_append)
  then show ?thesis
    using assms(1,2,3) by (simp add: op_to_yaml_fetched manifest_abort)
qed

text \<open>
  The repeated label sits on two fields of type \<^verbatim>\<open>STRING\<close>, which the second loop would
  never print.
\<close>

theorem duplicate_label_exit_witness:
  "op_to_yaml
     (canned 0 repeated_text [] (\<lambda>s. Inr (PyDict [(''fields'', PyList repeated_fields)])))
     [''op_to_yaml.py'', ''v1'', ''db-creds''] =
   \<lparr>out = [''apiVersion: v1'', ''kind: Secret'', ''metadata:'', ''  name: db-creds'', ''stringData:''],
    err = [''Error: duplicate key: username''],
    final = SystemExit 1\<rparr>"
  using duplicate_label_exit [of "[''op_to_yaml.py'', ''v1'', ''db-creds'']"
      "canned 0 repeated_text [] (\<lambda>s. Inr (PyDict [(''fields'', PyList repeated_fields)]))"
      "PyDict [(''fields'', PyList repeated_fields)]"
      "[field ''username'' ''admin'' ''STRING'', field ''api_key'' ''xyz123'' ''CONCEALED'']"
      "field ''username'' ''root'' ''STRING''"
      "[PyInt 5]"
      "[(PyStr ''username'', PyStr ''admin''), (PyStr ''api_key'', PyStr ''xyz123'')]"]
  by (simp add: run_simps repeated_text_def repeated_fields_def)

subsection \<open>The manifest\<close>

text \<open>
  Claim C2: for a record whose field list \<open>fs\<close> passes the duplicate scan, standard
  output is the five header lines followed by the \<^verbatim>\<open>stringData\<close> block of the
  specification: the fields of concealed type whose label is not \<^verbatim>\<open>password\<close>, in
  their order and no others, each printed with its value between double quotes and
  nothing escaped. The run then ends normally.
\<close>

theorem stringData_block_emitted:
  assumes "3 \<le> length argv"
    and "fetch w (argv ! 1) (argv ! 2) = Inr content"
    and "getitem content ''fields'' = Inr (PyList fs)"
    and "dupecheck_loop fs [] = Inr d"
  shows "op_to_yaml w argv =
    \<lparr>out = header (if length argv > 3 then argv ! 3 else argv ! 2) @ stringData_block fs,
     err = [], final = Finished\<rparr>"
  using assms by (simp add: op_to_yaml_fetched manifest_valid)

text \<open>A value with a double quote in it is printed as it is.\<close>

theorem stringData_block_emitted_witness:
  \<open>op_to_yaml
     (canned 0 quoted_text [] (\<lambda>s. Inr (PyDict [(''fields'', PyList quoted_fields)])))
     [''op_to_yaml.py'', ''v1'', ''db-creds'', ''my-secret''] =
   \<lparr>out = [''apiVersion: v1'', ''kind: Secret'', ''metadata:'', ''  name: my-secret'', ''stringData:'',
           ''  token: "a"b"'', ''  pin: "1234"''],
    err = [], final = Finished\<rparr>\<close>
  using stringData_block_emitted [of "[''op_to_yaml.py'', ''v1'', ''db-creds'', ''my-secret'']"
      \<open>canned 0 quoted_text [] (\<lambda>s. Inr (PyDict [(''fields'', PyList quoted_fields)]))\<close>
      \<open>PyDict [(''fields'', PyList quoted_fields)]\<close>
      quoted_fields
      \<open>[(PyStr ''user'', PyStr ''bob''), (PyStr ''token'', PyStr ''a"b''),
        (PyStr ''password'', PyStr ''pw''), (PyStr ''pin'', PyStr ''1234'')]\<close>]
  by (simp add: run_simps quoted_text_def quoted_fields_def
      stringData_block_def stringData_entry_def concealed_not_password_def)

text \<open>
  Claim C4: with vault \<^verbatim>\<open>v1\<close>, item \<^verbatim>\<open>db-creds\<close> and no third argument, when the retrieved
  record has the fields \<^verbatim>\<open>username\<close> (\<^verbatim>\<open>STRING\<close>), \<^verbatim>\<open>api_key\<close> and \<^verbatim>\<open>password\<close> (both
  \<^verbatim>\<open>CONCEALED\<close>), standard output is exactly the six lines of the example.
\<close>

theorem db_creds_manifest:
  assumes "fetch w ''v1'' ''db-creds'' = Inr content"
    and "getitem content ''fields'' = Inr (PyList db_creds_fields)"
  shows \<open>op_to_yaml w [prog, ''v1'', ''db-creds''] =
    \<lparr>out = [''apiVersion: v1'', ''kind: Secret'', ''metadata:'', ''  name: db-creds'',
            ''stringData:'', ''  api_key: "xyz123"''],
     err = [], final = Finished\<rparr>\<close>
proof -
  have scan: "dupecheck_loop db_creds_fields [] =
      Inr [(PyStr ''username'', PyStr ''admin''), (PyStr ''api_key'', PyStr ''xyz123''),
           (PyStr ''password'', PyStr ''secret'')]"
    by (simp add: db_creds_fields_def field_def dict_contains_def dict_setitem_def)
  have block: \<open>stringData_block db_creds_fields = [''  api_key: "xyz123"'']\<close>
    by (simp add: db_creds_fields_def field_def stringData_block_def stringData_entry_def
        concealed_not_password_def)
  have "op_to_yaml w [prog, ''v1'', ''db-creds''] = manifest ''db-creds'' content"
    using assms(1) op_to_yaml_fetched [of "[prog, ''v1'', ''db-creds'']" w content] by simp
  then show ?thesis
    using manifest_valid [OF assms(2) _ scan, of "''db-creds''"] block
    by (simp add: header_def)
qed

theorem db_creds_manifest_witness:
  \<open>op_to_yaml
     (canned 0 db_creds_text [] (\<lambda>s. Inr (PyDict [(''fields'', PyList db_creds_fields)])))
     [''op_to_yaml.py'', ''v1'', ''db-creds''] =
    \<lparr>out = [''apiVersion: v1'', ''kind: Secret'', ''metadata:'', ''  name: db-creds'',
            ''stringData:'', ''  api_key: "xyz123"''],
     err = [], final = Finished\<rparr>\<close>
  using db_creds_manifest [of
      "canned 0 db_creds_text [] (\<lambda>s. Inr (PyDict [(''fields'', PyList db_creds_fields)]))"
      "PyDict [(''fields'', PyList db_creds_fields)]" "''op_to_yaml.py''"]
  by (simp add: fetch_def op_command_def canned_def ascii_decode_def strip_Nil_iff isspace_def
      db_creds_text_def)

text \<open>
  Claim C5: whenever a run prints anything on standard output, its first five lines
  are the header, whose fourth line is \<^verbatim>\<open>name:\<close> with the item name when the third
  argument is omitted and with the third argument when it is given.
\<close>

theorem metadata_name:
  assumes "out (op_to_yaml w argv) \<noteq> []"
  shows "(length argv = 3 \<longrightarrow> take 5 (out (op_to_yaml w argv)) = header (argv ! 2)) \<and>
         (length argv > 3 \<longrightarrow> take 5 (out (op_to_yaml w argv)) = header (argv ! 3))"
proof -
  have len: "3 \<le> length argv"
  proof (rule ccontr)
    assume "\<not> 3 \<le> length argv"
    then have "op_to_yaml w argv = \<lparr>out = [], err = [], final = Uncaught IndexError\<rparr>"
      by (simp add: op_to_yaml_def argument_resolution_short)
    with assms show False by simp
  qed
  have "\<exists>content. fetch w (argv ! 1) (argv ! 2) = Inr content"
  proof (cases "fetch w (argv ! 1) (argv ! 2)")
    case (Inl r)
    then have "op_to_yaml w argv = r"
      using len by (simp add: op_to_yaml_def argument_resolution_ok)
    with Inl assms show ?thesis using fetch_out_empty by blast
  next
    case (Inr content)
    then show ?thesis by blast
  qed
  then obtain content where "fetch w (argv ! 1) (argv ! 2) = Inr content" by blast
  then have m: "op_to_yaml w argv =
      manifest (if length argv > 3 then argv ! 3 else argv ! 2) content"
    using len by (rule op_to_yaml_fetched [rotated])
  obtain ys where "out (op_to_yaml w argv) =
      header (if length argv > 3 then argv ! 3 else argv ! 2) @ ys"
    using manifest_out_header m by metis
  then show ?thesis by (auto simp: header_def)
qed

text \<open>The same record fetched without and with a secret name.\<close>

theorem metadata_name_witness:
  "take 5 (out (op_to_yaml
      (canned 0 db_creds_text [] (\<lambda>s. Inr (PyDict [(''fields'', PyList db_creds_fields)])))
      [''op_to_yaml.py'', ''v1'', ''db-creds''])) =
     [''apiVersion: v1'', ''kind: Secret'', ''metadata:'', ''  name: db-creds'', ''stringData:''] \<and>
   take 5 (out (op_to_yaml
      (canned 0 db_creds_text [] (\<lambda>s. Inr (PyDict [(''fields'', PyList db_creds_fields)])))
      [''op_to_yaml.py'', ''v1'', ''db-creds'', ''prod-db''])) =
     [''apiVersion: v1'', ''kind: Secret'', ''metadata:'', ''  name: prod-db'', ''stringData:'']"
proof -
  let ?w = "canned 0 db_creds_text [] (\<lambda>s. Inr (PyDict [(''fields'', PyList db_creds_fields)]))"
  have a: "out (op_to_yaml ?w [''op_to_yaml.py'', ''v1'', ''db-creds'']) \<noteq> []"
    by (simp add: run_simps db_creds_text_def db_creds_fields_def)
  have b: "out (op_to_yaml ?w [''op_to_yaml.py'', ''v1'', ''db-creds'', ''prod-db'']) \<noteq> []"
    by (simp add: run_simps db_creds_text_def db_creds_fields_def)
  show ?thesis
    using metadata_name [OF a] metadata_name [OF b] by (simp add: header_def)
qed

subsection \<open>Failures before the manifest\<close>

text \<open>
  Claim C6, amended: whenever \<^verbatim>\<open>op\<close> exits with a non-zero code, the run writes nothing
  on standard output and ends with exit status 1; when the captured error stream is
  valid UTF-8, the run prints the line naming the item and the vault and then the
  text of that stream on standard error, and exits through \<^verbatim>\<open>sys.exit(1)\<close>.
\<close>

theorem retrieval_error:
  assumes "3 \<le> length argv"
    and "returncode (subprocess_run w (op_command (argv ! 1) (argv ! 2))) \<noteq> 0"
  shows "out (op_to_yaml w argv) = [] \<and> exit_status (final (op_to_yaml w argv)) = 1 \<and>
    (\<forall>text. bytes_decode w (stderr (subprocess_run w (op_command (argv ! 1) (argv ! 2)))) = Some text \<longrightarrow>
       op_to_yaml w argv =
         \<lparr>out = [],
          err = [''Error fetching item '' @ [CHR 0x27] @ argv ! 2 @ [CHR 0x27]
                 @ '' from vault '' @ [CHR 0x27] @ argv ! 1 @ [CHR 0x27] @ '':'', text],
          final = SystemExit 1\<rparr>)"
  using assms
  by (cases "bytes_decode w (stderr (subprocess_run w (op_command (argv ! 1) (argv ! 2))))")
     (simp_all add: op_to_yaml_def argument_resolution_ok fetch_def)

theorem retrieval_error_witness:
  "op_to_yaml (canned 1 [] ''[ERROR] item not found'' (\<lambda>s. Inl json_error))
     [''op_to_yaml.py'', ''v1'', ''db-creds''] =
   \<lparr>out = [],
    err = [''Error fetching item '' @ [CHR 0x27] @ ''db-creds'' @ [CHR 0x27]
           @ '' from vault '' @ [CHR 0x27] @ ''v1'' @ [CHR 0x27] @ '':'',
           ''[ERROR] item not found''],
    final = SystemExit 1\<rparr>"
  using retrieval_error [of "[''op_to_yaml.py'', ''v1'', ''db-creds'']"
      "canned 1 [] ''[ERROR] item not found'' (\<lambda>s. Inl json_error)"]
  by (simp add: canned_def ascii_decode_def)

text \<open>
  The claim as first stated fails when the error stream is not valid UTF-8, here the
  single byte \<^verbatim>\<open>0xFF\<close>: line 16 raises \<^verbatim>\<open>UnicodeDecodeError\<close> after the first line has
  been printed, and the stream itself is never printed.
\<close>

theorem undecodable_error_stream:
  "op_to_yaml (canned 1 [] [CHR 0xFF] (\<lambda>s. Inl json_error))
     [''op_to_yaml.py'', ''v1'', ''db-creds''] =
   \<lparr>out = [],
    err = [''Error fetching item '' @ [CHR 0x27] @ ''db-creds'' @ [CHR 0x27]
           @ '' from vault '' @ [CHR 0x27] @ ''v1'' @ [CHR 0x27] @ '':''],
    final = Uncaught UnicodeDecodeError\<rparr>"
  by (simp add: run_simps)

text \<open>
  Claim C7: whenever \<^verbatim>\<open>op\<close> exits with code zero and its captured output is empty or
  whitespace only, the run prints the empty-response message, which depends on the
  item name alone, on standard error, writes nothing on standard output, and exits with
  code 1.
\<close>

theorem empty_response:
  assumes "3 \<le> length argv"
    and "returncode (subprocess_run w (op_command (argv ! 1) (argv ! 2))) = 0"
    and "bytes_decode w (stdout (subprocess_run w (op_command (argv ! 1) (argv ! 2)))) = Some secret"
    and "list_all isspace secret"
  shows "op_to_yaml w argv =
    \<lparr>out = [],
     err = [''Error: Empty response from 1Password for item '' @ [CHR 0x27] @ argv ! 2 @ [CHR 0x27]],
     final = SystemExit 1\<rparr>"
  using assms
  by (simp add: op_to_yaml_def argument_resolution_ok fetch_def strip_Nil_iff)

theorem empty_response_witness:
  "op_to_yaml (canned 0 [CHR 0x20, CHR 0x0A] [] (\<lambda>s. Inl json_error))
     [''op_to_yaml.py'', ''v1'', ''db-creds''] =
    \<lparr>out = [],
     err = [''Error: Empty response from 1Password for item '' @ [CHR 0x27] @ ''db-creds'' @ [CHR 0x27]],
     final = SystemExit 1\<rparr>"
  using empty_response [of "[''op_to_yaml.py'', ''v1'', ''db-creds'']"
      "canned 0 [CHR 0x20, CHR 0x0A] [] (\<lambda>s. Inl json_error)"
      "[CHR 0x20, CHR 0x0A]"]
  by (simp add: canned_def ascii_decode_def isspace_def)

text \<open>
  Claim C8, amended: whenever \<^verbatim>\<open>op\<close> exits with code zero and its output, decoded as
  UTF-8, is neither empty nor whitespace only and does not parse as JSON, the run
  prints the parse error and the first 500 characters of the response on standard
  error, writes nothing on standard output, and exits with code 1.
\<close>

theorem malformed_response:
  assumes "3 \<le> length argv"
    and "returncode (subprocess_run w (op_command (argv ! 1) (argv ! 2))) = 0"
    and "bytes_decode w (stdout (subprocess_run w (op_command (argv ! 1) (argv ! 2)))) = Some secret"
    and "\<not> list_all isspace secret"
    and "json_loads w secret = Inl e"
  shows "op_to_yaml w argv =
    \<lparr>out = [],
     err = [''Error parsing JSON response: '' @ e, ''Raw response: '' @ take 500 secret],
     final = SystemExit 1\<rparr>"
  using assms
  by (simp add: op_to_yaml_def argument_resolution_ok fetch_def strip_Nil_iff)

theorem malformed_response_witness:
  "op_to_yaml (canned 0 ''not json'' [] (\<lambda>s. Inl json_error))
     [''op_to_yaml.py'', ''v1'', ''db-creds''] =
   \<lparr>out = [],
    err = [''Error parsing JSON response: Expecting value: line 1 column 1 (char 0)'',
           ''Raw response: not json''],
    final = SystemExit 1\<rparr>"
  using malformed_response [of "[''op_to_yaml.py'', ''v1'', ''db-creds'']"
      "canned 0 ''not json'' [] (\<lambda>s. Inl json_error)" "''not json''" json_error]
  by (simp add: canned_def ascii_decode_def isspace_def json_error_def)

text \<open>
  The claim as first stated fails on an output that is not empty but blank, here one
  space, which is no JSON either: the check of line 20 comes first, and the run prints
  the empty-response message, not the parse error and the response.
\<close>

theorem blank_response_not_parsed:
  "op_to_yaml (canned 0 '' '' [] (\<lambda>s. Inl json_error))
     [''op_to_yaml.py'', ''v1'', ''db-creds''] =
   \<lparr>out = [],
    err = [''Error: Empty response from 1Password for item '' @ [CHR 0x27] @ ''db-creds''
           @ [CHR 0x27]],
    final = SystemExit 1\<rparr>"
  by (simp add: run_simps)

subsection \<open>Missing arguments\<close>

text \<open>
  Claim C9, amended: when \<^verbatim>\<open>vault_id\<close> or \<^verbatim>\<open>item_name\<close> is absent the run does not proceed:
  the unguarded access to \<^verbatim>\<open>sys.argv\<close> raises \<^verbatim>\<open>IndexError\<close>, which nothing catches,
  before anything is printed and whatever \<^verbatim>\<open>op\<close> would answer; there is no usage
  message. When both arguments are present no run ends with \<^verbatim>\<open>IndexError\<close>.
\<close>

theorem missing_argument:
  "(length argv < 3 \<longrightarrow>
      op_to_yaml w argv = \<lparr>out = [], err = [], final = Uncaught IndexError\<rparr>) \<and>
   (3 \<le> length argv \<longrightarrow> final (op_to_yaml w argv) \<noteq> Uncaught IndexError)"
proof (intro conjI impI)
  assume "length argv < 3"
  then show "op_to_yaml w argv = \<lparr>out = [], err = [], final = Uncaught IndexError\<rparr>"
    by (simp add: op_to_yaml_def argument_resolution_short)
next
  assume len: "3 \<le> length argv"
  show "final (op_to_yaml w argv) \<noteq> Uncaught IndexError"
  proof (cases "fetch w (argv ! 1) (argv ! 2)")
    case (Inl r)
    then have "op_to_yaml w argv = r"
      using len by (simp add: op_to_yaml_def argument_resolution_ok)
    with Inl show ?thesis using fetch_no_IndexError by blast
  next
    case (Inr content)
    then show ?thesis using len by (simp add: op_to_yaml_fetched manifest_no_IndexError)
  qed
qed

theorem missing_argument_witness:
  "op_to_yaml (canned 0 db_creds_text [] (\<lambda>s. Inr (PyDict [(''fields'', PyList db_creds_fields)])))
     [''op_to_yaml.py''] = \<lparr>out = [], err = [], final = Uncaught IndexError\<rparr> \<and>
   final (op_to_yaml (canned 0 db_creds_text [] (\<lambda>s. Inr (PyDict [(''fields'', PyList db_creds_fields)])))
     [''op_to_yaml.py'', ''v1'', ''db-creds'']) \<noteq> Uncaught IndexError"
  using missing_argument [of "[''op_to_yaml.py'']"
      "canned 0 db_creds_text [] (\<lambda>s. Inr (PyDict [(''fields'', PyList db_creds_fields)]))"]
    missing_argument [of "[''op_to_yaml.py'', ''v1'', ''db-creds'']"
      "canned 0 db_creds_text [] (\<lambda>s. Inr (PyDict [(''fields'', PyList db_creds_fields)]))"]
  by simp

text \<open>
  The claim as first stated fails with the vault alone on the command line: the run
  ends by the uncaught \<^verbatim>\<open>IndexError\<close> of line 10, and the script has printed no usage
  message.
\<close>

theorem item_name_absent:
  "op_to_yaml (canned 0 db_creds_text [] (\<lambda>s. Inr (PyDict [(''fields'', PyList db_creds_fields)])))
     [''op_to_yaml.py'', ''v1''] = \<lparr>out = [], err = [], final = Uncaught IndexError\<rparr>"
  by (simp add: op_to_yaml_def argument_resolution_def)

subsection \<open>Records of another shape\<close>




end
